theory Spec2Isabelle
  imports
    Complex_Main
    "HOL-Library.Word"
    "HOL-Library.Multiset"
    "HOL-Library.Char_ord"
    "HOL-Library.List_Lexorder"
begin

section \<open>xtop: the update loop of the terminal system monitor (main.go)\<close>

text \<open>
  The development embeds \<^verbatim>\<open>main.go\<close>: the ingestion of the process list
  (\<^verbatim>\<open>getProcessInfo\<close>), the message handler (\<^verbatim>\<open>Update\<close>), the derivation of the
  table rows (\<^verbatim>\<open>updateTable\<close>) and the per-core CPU line of \<^verbatim>\<open>View\<close>.

  Conventions of the embedding.
  \<^item> A Go \<^verbatim>\<open>string\<close> is a sequence of bytes and \<^verbatim>\<open>len\<close> counts bytes; so does
    \<open>length\<close> on \<open>string\<close> here. Go compares strings bytewise and lexicographically, which is
    the order of \<open>char list\<close> with the two library orders imported above.
  \<^item> \<^verbatim>\<open>int32\<close> is \<open>32 word\<close>, compared as a signed number; \<^verbatim>\<open>int\<close> is \<open>64 word\<close>.
  \<^item> A \<^verbatim>\<open>float64\<close> or \<^verbatim>\<open>float32\<close> is a \<open>gofloat\<close>: a NaN, an infinity, or the
    number a finite value denotes. Every Go comparison with a NaN is false.
  \<^item> Code of other packages that \<^verbatim>\<open>main.go\<close> calls (\<^verbatim>\<open>sort.Slice\<close>,
    \<^verbatim>\<open>fmt.Sprintf\<close> on a float, the style's \<^verbatim>\<open>Render\<close>, the table component's
    \<^verbatim>\<open>Update\<close>) is a parameter, gathered in the record \<open>Lib\<close>.
\<close>

subsection \<open>Data\<close>

type_synonym int32 = "32 word"
type_synonym go_int = "64 word"

text \<open>
  The values of a Go float. \<open>Finite x\<close> is a finite value that denotes \<open>x\<close>; the two zeros,
  which Go compares as equal, both denote 0.
\<close>

datatype gofloat = NaN | NegInf | Finite real | PosInf

text \<open>Go's \<^verbatim>\<open><\<close> on floats (\<^verbatim>\<open>a > b\<close> is \<open>flt b a\<close>): false as soon as one side is a NaN.\<close>

fun flt :: "gofloat \<Rightarrow> gofloat \<Rightarrow> bool" where
  "flt NaN _ = False"
| "flt _ NaN = False"
| "flt NegInf NegInf = False"
| "flt NegInf _ = True"
| "flt _ NegInf = False"
| "flt PosInf _ = False"
| "flt _ PosInf = True"
| "flt (Finite x) (Finite y) = (x < y)"

text \<open>Go's \<^verbatim>\<open><=\<close> on floats (\<^verbatim>\<open>a >= b\<close> is \<open>fle b a\<close>): false as well on a NaN.\<close>

definition fle :: "gofloat \<Rightarrow> gofloat \<Rightarrow> bool" where
  "fle a b \<longleftrightarrow> a \<noteq> NaN \<and> b \<noteq> NaN \<and> \<not> flt b a"

text \<open>\<^verbatim>\<open>type ProcessInfo struct\<close>\<close>

record ProcessInfo =
  PID :: int32
  Name :: string
  CPUPerc :: gofloat
  MemPerc :: gofloat
  Status :: string
  User :: string

text \<open>
  A \<^verbatim>\<open>*process.Process\<close> of the metrics provider, seen through the accessors that
  \<^verbatim>\<open>getProcessInfo\<close> calls. Each field holds the value the accessor returns; the error it
  returns beside the value is dropped by the caller (\<^verbatim>\<open>name, _ := p.Name()\<close>). A nil
  pointer is \<open>None\<close>.
\<close>

record Process =
  Pid :: int32
  procName :: string
  procCPUPercent :: gofloat
  procMemoryPercent :: gofloat
  procStatus :: string
  procUsername :: string

record VirtualMemoryStat =
  Total :: "64 word"
  Used :: "64 word"
  UsedPercent :: gofloat

text \<open>\<^verbatim>\<open>type systemStats struct\<close>\<close>

record systemStats =
  uptime :: "64 word"
  loadAvg :: "(gofloat \<times> gofloat \<times> gofloat) option"
  cpuPercent :: "gofloat list"
  memStats :: "VirtualMemoryStat option"
  processes :: "Process option list"
  processInfo :: "ProcessInfo list"

text \<open>
  The table component (\<^verbatim>\<open>table.Model\<close>), as far as \<^verbatim>\<open>main.go\<close> sets it: the
  columns, the rows given to \<^verbatim>\<open>SetRows\<close>, the sizes given to \<^verbatim>\<open>SetWidth\<close>,
  \<^verbatim>\<open>SetHeight\<close> and \<^verbatim>\<open>WithHeight\<close>, and the focus.
\<close>

record table_Model =
  columns :: "(string \<times> nat) list"
  rows :: "string list list"
  width :: go_int
  height :: go_int
  focused :: bool

definition SetRows :: "string list list \<Rightarrow> table_Model \<Rightarrow> table_Model" where
  "SetRows r t = t\<lparr>rows := r\<rparr>"

definition SetWidth :: "go_int \<Rightarrow> table_Model \<Rightarrow> table_Model" where
  "SetWidth w t = t\<lparr>width := w\<rparr>"

definition SetHeight :: "go_int \<Rightarrow> table_Model \<Rightarrow> table_Model" where
  "SetHeight h t = t\<lparr>height := h\<rparr>"

text \<open>\<^verbatim>\<open>type model struct\<close>; \<open>lastUpdate\<close> is the time of the last tick.\<close>

record model =
  table :: table_Model
  stats :: systemStats
  sortBy :: string
  ascending :: bool
  lastUpdate :: int
  err :: "string option"

text \<open>
  The messages \<^verbatim>\<open>Update\<close> switches on. \<open>KeyMsg k\<close> carries \<^verbatim>\<open>msg.String()\<close>;
  \<open>OtherMsg\<close> stands for a message of any type the switch has no case for.
\<close>

datatype Msg =
    KeyMsg string
  | TickMsg int
  | StatsMsg systemStats
  | WindowSizeMsg go_int go_int
  | OtherMsg

text \<open>
  The commands \<^verbatim>\<open>Update\<close> returns: \<^verbatim>\<open>tea.Quit\<close>, \<^verbatim>\<open>tickCmd()\<close>,
  \<^verbatim>\<open>updateStats()\<close> (the sampling request), a \<^verbatim>\<open>tea.Batch\<close> of commands, and
  whatever command the table component's \<^verbatim>\<open>Update\<close> hands back.
\<close>

datatype 'c Cmd =
    Quit
  | TickCmd
  | UpdateStatsCmd
  | Batch "'c Cmd list"
  | TableCmd 'c

text \<open>
  The library code \<^verbatim>\<open>main.go\<close> calls. \<open>sort_Slice less xs\<close> is the slice after
  \<^verbatim>\<open>sort.Slice(xs, less)\<close>, with the comparison given on elements instead of indices;
  \<open>Sprintf1 x\<close> is \<^verbatim>\<open>fmt.Sprintf("%.1f", x)\<close>; \<open>Render s\<close> is
  \<^verbatim>\<open>systemInfoStyle.Render(s)\<close>; \<open>table_Update msg t\<close> is \<^verbatim>\<open>t.Update(msg)\<close>.
\<close>

record 'c Lib =
  sort_Slice :: "(ProcessInfo \<Rightarrow> ProcessInfo \<Rightarrow> bool) \<Rightarrow> ProcessInfo list \<Rightarrow> ProcessInfo list"
  Sprintf1 :: "gofloat \<Rightarrow> string"
  Render :: "string \<Rightarrow> string"
  table_Update :: "Msg \<Rightarrow> table_Model \<Rightarrow> table_Model \<times> 'c"

subsection \<open>Decimal output of integers (\<^verbatim>\<open>strconv.Itoa\<close>, \<^verbatim>\<open>%d\<close>)\<close>

fun digits :: "nat \<Rightarrow> string" where
  "digits n =
     (if n < 10 then [char_of (48 + n)]
      else digits (n div 10) @ [char_of (48 + n mod 10)])"

declare digits.simps [simp del]

definition Itoa :: "int \<Rightarrow> string" where
  "Itoa i = (if i < 0 then CHR ''-'' # digits (nat (- i)) else digits (nat i))"

subsection \<open>\<^verbatim>\<open>initialModel\<close>\<close>

text \<open>
  \<^verbatim>\<open>table.New\<close> with the six columns, the focus and the height 15; the zero value of
  \<^verbatim>\<open>systemStats\<close>; the directive \<^verbatim>\<open>sortBy: "cpu", ascending: false\<close>.
\<close>

definition zeroStats :: systemStats where
  "zeroStats =
     \<lparr>uptime = 0, loadAvg = None, cpuPercent = [], memStats = None,
      processes = [], processInfo = []\<rparr>"

definition initialModel :: model where
  "initialModel =
     \<lparr>table =
        \<lparr>columns =
           [(''PID'', 8), (''USER'', 10), (''CPU%'', 8), (''MEM%'', 8),
            (''STATUS'', 10), (''COMMAND'', 30)],
         rows = [], width = 0, height = 15, focused = True\<rparr>,
      stats = zeroStats,
      sortBy = ''cpu'',
      ascending = False,
      lastUpdate = 0,
      err = None\<rparr>"

subsection \<open>\<^verbatim>\<open>getProcessInfo\<close>\<close>

text \<open>
  The loop over \<^verbatim>\<open>processes\<close>, with the slice \<^verbatim>\<open>processInfo\<close> built so far as
  accumulator. The two \<^verbatim>\<open>continue\<close> statements skip a nil pointer and an empty name; the
  user name is cut to its first 8 bytes before the record is appended.
\<close>

fun getProcessInfo_loop :: "Process option list \<Rightarrow> ProcessInfo list \<Rightarrow> ProcessInfo list" where
  "getProcessInfo_loop [] acc = acc"
| "getProcessInfo_loop (None # ps) acc = getProcessInfo_loop ps acc"
| "getProcessInfo_loop (Some p # ps) acc =
     (let name = procName p in
      if name = [] then getProcessInfo_loop ps acc
      else
        let info = \<lparr>PID = Pid p, Name = name, CPUPerc = procCPUPercent p,
                    MemPerc = procMemoryPercent p, Status = procStatus p,
                    User = procUsername p\<rparr>;
            info = (if length (User info) > 8 then info\<lparr>User := take 8 (User info)\<rparr> else info)
        in getProcessInfo_loop ps (acc @ [info]))"

definition getProcessInfo :: "Process option list \<Rightarrow> ProcessInfo list" where
  "getProcessInfo ps = getProcessInfo_loop ps []"

subsection \<open>\<^verbatim>\<open>updateStats\<close>\<close>

text \<open>
  One sampling pass. The argument holds what the five calls to the metrics provider return,
  \<open>None\<close> where the call returns an error; a field whose call fails keeps its zero value.
\<close>

record Provider =
  host_Uptime :: "64 word option"
  load_Avg :: "(gofloat \<times> gofloat \<times> gofloat) option"
  cpu_Percent :: "gofloat list option"
  mem_VirtualMemory :: "VirtualMemoryStat option"
  process_Processes :: "Process option list option"

definition updateStats :: "Provider \<Rightarrow> systemStats" where
  "updateStats pr =
     (let st = zeroStats;
          st = (case host_Uptime pr of None \<Rightarrow> st | Some u \<Rightarrow> st\<lparr>uptime := u * 1000000000\<rparr>);
          st = (case load_Avg pr of None \<Rightarrow> st | Some l \<Rightarrow> st\<lparr>loadAvg := Some l\<rparr>);
          st = (case cpu_Percent pr of None \<Rightarrow> st | Some c \<Rightarrow> st\<lparr>cpuPercent := c\<rparr>);
          st = (case mem_VirtualMemory pr of None \<Rightarrow> st | Some v \<Rightarrow> st\<lparr>memStats := Some v\<rparr>);
          st = (case process_Processes pr of None \<Rightarrow> st
                | Some ps \<Rightarrow> st\<lparr>processes := ps, processInfo := getProcessInfo ps\<rparr>)
      in st)"

subsection \<open>\<^verbatim>\<open>updateTable\<close>\<close>

text \<open>
  The comparison handed to \<^verbatim>\<open>sort.Slice\<close>: the \<^verbatim>\<open>switch\<close> on \<^verbatim>\<open>m.sortBy\<close> with
  its four cases, and \<^verbatim>\<open>return false\<close> after it.
\<close>

definition sortLess :: "string \<Rightarrow> bool \<Rightarrow> ProcessInfo \<Rightarrow> ProcessInfo \<Rightarrow> bool" where
  "sortLess sb asc a b =
     (if sb = ''cpu'' then
        (if asc then flt (CPUPerc a) (CPUPerc b) else flt (CPUPerc b) (CPUPerc a))
      else if sb = ''memory'' then
        (if asc then flt (MemPerc a) (MemPerc b) else flt (MemPerc b) (MemPerc a))
      else if sb = ''pid'' then
        (if asc then PID a <s PID b else PID b <s PID a)
      else if sb = ''name'' then
        (if asc then Name a < Name b else Name a > Name b)
      else False)"

text \<open>One table row: the six cells, the command cut to 28 bytes and marked when longer.\<close>

definition mkRow :: "'c Lib \<Rightarrow> ProcessInfo \<Rightarrow> string list" where
  "mkRow L proc =
     (let command = Name proc;
          command = (if length command > 28 then take 28 command @ ''..'' else command)
      in [Itoa (sint (PID proc)), User proc, Sprintf1 L (CPUPerc proc),
          Sprintf1 L (MemPerc proc), Status proc, command])"

text \<open>The loop that fills \<^verbatim>\<open>rows\<close>; it breaks once 50 rows are there.\<close>

fun rowsLoop :: "'c Lib \<Rightarrow> ProcessInfo list \<Rightarrow> string list list \<Rightarrow> string list list" where
  "rowsLoop L [] rs = rs"
| "rowsLoop L (proc # ps) rs =
     (if length rs \<ge> 50 then rs else rowsLoop L ps (rs @ [mkRow L proc]))"

text \<open>
  \<^verbatim>\<open>updateTable\<close> sorts \<^verbatim>\<open>m.stats.processInfo\<close> in place and hands the rows to the
  table.
\<close>

definition updateTable :: "'c Lib \<Rightarrow> model \<Rightarrow> model" where
  "updateTable L m =
     (let sorted = sort_Slice L (sortLess (sortBy m) (ascending m)) (processInfo (stats m));
          rs = rowsLoop L sorted []
      in m\<lparr>stats := (stats m)\<lparr>processInfo := sorted\<rparr>,
           table := SetRows rs (table m)\<rparr>)"

subsection \<open>\<^verbatim>\<open>Update\<close>\<close>

text \<open>The last two lines of \<^verbatim>\<open>Update\<close>: the message goes on to the table component.\<close>

definition forward :: "'c Lib \<Rightarrow> Msg \<Rightarrow> model \<Rightarrow> model \<times> 'c Cmd" where
  "forward L msg m =
     (case table_Update L msg (table m) of (t, c) \<Rightarrow> (m\<lparr>table := t\<rparr>, TableCmd c))"

definition Update :: "'c Lib \<Rightarrow> Msg \<Rightarrow> model \<Rightarrow> model \<times> 'c Cmd" where
  "Update L msg m =
     (case msg of
        KeyMsg k \<Rightarrow>
          if k = ''q'' \<or> k = ''ctrl+c'' then (m, Quit)
          else if k = ''c'' then
            forward L msg (m\<lparr>sortBy := ''cpu'', ascending := \<not> ascending m\<rparr>)
          else if k = ''m'' then
            forward L msg (m\<lparr>sortBy := ''memory'', ascending := \<not> ascending m\<rparr>)
          else if k = ''p'' then
            forward L msg (m\<lparr>sortBy := ''pid'', ascending := \<not> ascending m\<rparr>)
          else if k = ''n'' then
            forward L msg (m\<lparr>sortBy := ''name'', ascending := \<not> ascending m\<rparr>)
          else forward L msg m
      | TickMsg t \<Rightarrow> (m\<lparr>lastUpdate := t\<rparr>, Batch [TickCmd, UpdateStatsCmd])
      | StatsMsg s \<Rightarrow> forward L msg (updateTable L (m\<lparr>stats := s\<rparr>))
      | WindowSizeMsg w h \<Rightarrow>
          forward L msg (m\<lparr>table := SetHeight (h - 12) (SetWidth (w - 4) (table m))\<rparr>)
      | OtherMsg \<Rightarrow> forward L msg m)"

subsection \<open>\<^verbatim>\<open>View\<close>: the CPU usage line\<close>

text \<open>
  The loop over \<^verbatim>\<open>m.stats.cpuPercent\<close> in \<^verbatim>\<open>View\<close>: \<open>n\<close> is the length of the whole
  slice, \<open>i\<close> the index, \<open>b\<close> what the builder holds. It breaks at index 7.
\<close>

fun cpuLoop :: "'c Lib \<Rightarrow> nat \<Rightarrow> nat \<Rightarrow> gofloat list \<Rightarrow> string \<Rightarrow> string" where
  "cpuLoop L n i [] b = b"
| "cpuLoop L n i (usage # us) b =
     (let b = (if i > 0 then b @ '' '' else b);
          b = b @ Sprintf1 L usage @ ''%''
      in if i \<ge> 7 then
           (if n > 8 then b @ '' (+'' @ Itoa (int n - 8) @ '' more)'' else b)
         else cpuLoop L n (Suc i) us b)"

text \<open>
  The block \<^verbatim>\<open>// CPU usage\<close> of \<^verbatim>\<open>View\<close>, as a step on the builder's content: nothing
  is written for an empty slice.
\<close>

definition View_cpu :: "'c Lib \<Rightarrow> model \<Rightarrow> string \<Rightarrow> string" where
  "View_cpu L m b =
     (let cs = cpuPercent (stats m) in
      if length cs > 0 then cpuLoop L (length cs) 0 cs (b @ Render L ''CPU: '') @ [CHR 0x0A]
      else b)"

subsection \<open>What the library code is assumed to do\<close>

text \<open>
  \<^verbatim>\<open>sort.Slice\<close> permutes the slice, whatever the comparison is, and leaves it in order
  when the comparison is a strict weak ordering (irreflexive, transitive, with a transitive
  incomparability), as the documentation of \<^verbatim>\<open>sort.Interface\<close> demands of
  \<^verbatim>\<open>Less\<close>: no element is less than one before it. It is not stable.
\<close>

definition strict_weak_order :: "('a \<Rightarrow> 'a \<Rightarrow> bool) \<Rightarrow> bool" where
  "strict_weak_order lt \<longleftrightarrow>
     (\<forall>a. \<not> lt a a) \<and>
     (\<forall>a b c. lt a b \<longrightarrow> lt b c \<longrightarrow> lt a c) \<and>
     (\<forall>a b c. \<not> lt a b \<longrightarrow> \<not> lt b c \<longrightarrow> \<not> lt a c)"

definition sort_Slice_contract :: "(('a \<Rightarrow> 'a \<Rightarrow> bool) \<Rightarrow> 'a list \<Rightarrow> 'a list) \<Rightarrow> bool" where
  "sort_Slice_contract srt \<longleftrightarrow>
     (\<forall>lt xs. mset (srt lt xs) = mset xs \<and>
        (strict_weak_order lt \<longrightarrow> sorted_wrt (\<lambda>a b. \<not> lt b a) (srt lt xs)))"

text \<open>
  \<^verbatim>\<open>sort.Slice\<close> calls the comparison on elements of the slice only, so the ordering is
  needed of those elements only: the same contract, with the strict weak ordering asked of
  the elements of the slice.
\<close>

definition strict_weak_order_on :: "'a set \<Rightarrow> ('a \<Rightarrow> 'a \<Rightarrow> bool) \<Rightarrow> bool" where
  "strict_weak_order_on A lt \<longleftrightarrow>
     (\<forall>a\<in>A. \<not> lt a a) \<and>
     (\<forall>a\<in>A. \<forall>b\<in>A. \<forall>c\<in>A. lt a b \<longrightarrow> lt b c \<longrightarrow> lt a c) \<and>
     (\<forall>a\<in>A. \<forall>b\<in>A. \<forall>c\<in>A. \<not> lt a b \<longrightarrow> \<not> lt b c \<longrightarrow> \<not> lt a c)"

definition sort_Slice_contract_on :: "(('a \<Rightarrow> 'a \<Rightarrow> bool) \<Rightarrow> 'a list \<Rightarrow> 'a list) \<Rightarrow> bool" where
  "sort_Slice_contract_on srt \<longleftrightarrow>
     (\<forall>lt xs. mset (srt lt xs) = mset xs \<and>
        (strict_weak_order_on (set xs) lt \<longrightarrow> sorted_wrt (\<lambda>a b. \<not> lt b a) (srt lt xs)))"

text \<open>
  The table component's \<^verbatim>\<open>Update\<close> moves the cursor on navigation keys; it does not
  touch the rows.
\<close>

definition keeps_rows :: "(Msg \<Rightarrow> table_Model \<Rightarrow> table_Model \<times> 'c) \<Rightarrow> bool" where
  "keeps_rows tu \<longleftrightarrow> (\<forall>msg t. rows (fst (tu msg t)) = rows t)"

subsection \<open>An instance of the library, for the examples\<close>

text \<open>
  Insertion sort, which is what \<^verbatim>\<open>sort.Slice\<close> runs on a slice of at most 12 elements
  (\<^verbatim>\<open>for j := i; j > a && less(j, j-1); j-- { swap(j, j-1) }\<close> for each \<open>i\<close> in turn): the
  element moves left as long as it is less than its left neighbour. \<open>insertLeft\<close> takes the
  sorted prefix in reverse, the nearest neighbour first.
\<close>

fun insertLeft :: "('a \<Rightarrow> 'a \<Rightarrow> bool) \<Rightarrow> 'a \<Rightarrow> 'a list \<Rightarrow> 'a list" where
  "insertLeft lt x [] = [x]"
| "insertLeft lt x (y # ys) = (if lt x y then y # insertLeft lt x ys else x # y # ys)"

definition insertionSort :: "('a \<Rightarrow> 'a \<Rightarrow> bool) \<Rightarrow> 'a list \<Rightarrow> 'a list" where
  "insertionSort lt xs = rev (foldl (\<lambda>acc x. insertLeft lt x acc) [] xs)"

text \<open>
  \<^verbatim>\<open>%.1f\<close> for the examples: one decimal place, rounded down, of a finite number that is
  not negative (the percentages of the examples have one decimal place at most), and Go's
  words for the other values.
\<close>

fun oneDecimal :: "gofloat \<Rightarrow> string" where
  "oneDecimal NaN = ''NaN''"
| "oneDecimal NegInf = ''-Inf''"
| "oneDecimal PosInf = ''+Inf''"
| "oneDecimal (Finite x) =
     (let t = nat \<lfloor>x * 10\<rfloor> in digits (t div 10) @ ''.'' @ digits (t mod 10))"

declare oneDecimal.simps [simp del]

definition exampleLib :: "unit Lib" where
  "exampleLib =
     \<lparr>sort_Slice = insertionSort, Sprintf1 = oneDecimal, Render = (\<lambda>s. s),
      table_Update = (\<lambda>msg t. (t, ()))\<rparr>"

subsection \<open>The states the program can be in\<close>

text \<open>
  \<^verbatim>\<open>main\<close> starts the loop on \<^verbatim>\<open>initialModel()\<close>; every later state is the model that
  \<^verbatim>\<open>Update\<close> returns for some message.
\<close>

inductive reachable :: "'c Lib \<Rightarrow> model \<Rightarrow> bool" for L :: "'c Lib" where
  reachable_init: "reachable L initialModel"
| reachable_step: "reachable L m \<Longrightarrow> reachable L (fst (Update L msg m))"

subsection \<open>The order the specification asks of two rows, one after the other\<close>

text \<open>
  Following the specification: by \<open>cpuPercent\<close>, by \<open>memPercent\<close>, by the numeric pid, by
  the name in lexicographic order; not decreasing when ascending, not increasing otherwise.
\<close>

definition inOrder :: "string \<Rightarrow> bool \<Rightarrow> ProcessInfo \<Rightarrow> ProcessInfo \<Rightarrow> bool" where
  "inOrder sb asc a b =
     (if sb = ''cpu'' then (if asc then fle (CPUPerc a) (CPUPerc b) else fle (CPUPerc b) (CPUPerc a))
      else if sb = ''memory'' then (if asc then fle (MemPerc a) (MemPerc b) else fle (MemPerc b) (MemPerc a))
      else if sb = ''pid'' then (if asc then sint (PID a) \<le> sint (PID b) else sint (PID a) \<ge> sint (PID b))
      else if sb = ''name'' then (if asc then Name a \<le> Name b else Name a \<ge> Name b)
      else False)"

text \<open>A process the ingestion keeps: the pointer is not nil and the name is not empty.\<close>

definition named :: "Process option \<Rightarrow> bool" where
  "named p = (case p of None \<Rightarrow> False | Some q \<Rightarrow> procName q \<noteq> [])"

subsection \<open>The blank-separated list of the CPU line\<close>

text \<open>The strings of a list, one after the other, with a separator between two of them.\<close>

fun joinWith :: "string \<Rightarrow> string list \<Rightarrow> string" where
  "joinWith sep [] = []"
| "joinWith sep [x] = x"
| "joinWith sep (x # y # ys) = x @ sep @ joinWith sep (y # ys)"

subsection \<open>A sampling pass, for the examples\<close>

text \<open>
  The three processes of the specification's example (pid 3 has no name), a nil pointer,
  and a process with a long command name and a long user name; ten cores.
\<close>

definition exampleProcs :: "Process option list" where
  "exampleProcs =
     [Some \<lparr>Pid = 1, procName = ''a'', procCPUPercent = Finite 10, procMemoryPercent = Finite 3,
            procStatus = ''S'', procUsername = ''root''\<rparr>,
      Some \<lparr>Pid = 2, procName = ''b'', procCPUPercent = Finite 90, procMemoryPercent = Finite 1,
            procStatus = ''R'', procUsername = ''daemon''\<rparr>,
      None,
      Some \<lparr>Pid = 3, procName = [], procCPUPercent = Finite 50, procMemoryPercent = Finite 2,
            procStatus = ''Z'', procUsername = ''root''\<rparr>,
      Some \<lparr>Pid = 4, procName = ''a-command-name-of-thirty-bytes'', procCPUPercent = Finite 40,
            procMemoryPercent = Finite 2, procStatus = ''S'', procUsername = ''administrator''\<rparr>]"

definition exampleStats :: systemStats where
  "exampleStats =
     updateStats
       \<lparr>host_Uptime = Some 3600, load_Avg = None,
        cpu_Percent = Some (map Finite [1, 2, 3, 4, 5, 6, 7, 8, 9, 10]),
        mem_VirtualMemory = None, process_Processes = Some exampleProcs\<rparr>"

text \<open>Sixty processes, all with a name, for the cap on the rows.\<close>

definition sixtyProcs :: "Process option list" where
  "sixtyProcs =
     map (\<lambda>i. Some \<lparr>Pid = of_nat i, procName = ''worker'', procCPUPercent = Finite (real i),
                     procMemoryPercent = Finite 1, procStatus = ''S'', procUsername = ''root''\<rparr>)
       [1 ..< 61]"

subsection \<open>Percentages that can be compared\<close>

text \<open>No NaN among the values the criterion compares; pids and names always compare.\<close>

definition noNaN :: "string \<Rightarrow> ProcessInfo list \<Rightarrow> bool" where
  "noNaN sb ps =
     (if sb = ''cpu'' then list_all (\<lambda>p. CPUPerc p \<noteq> NaN) ps
      else if sb = ''memory'' then list_all (\<lambda>p. MemPerc p \<noteq> NaN) ps
      else True)"

text \<open>
  A sampling pass with a NaN among the CPU percentages: four processes with the percentages
  1, NaN, 3, 2, in this order.
\<close>

definition nanStats :: systemStats where
  "nanStats =
     updateStats
       \<lparr>host_Uptime = None, load_Avg = None, cpu_Percent = None, mem_VirtualMemory = None,
        process_Processes = Some
          [Some \<lparr>Pid = 1, procName = ''a'', procCPUPercent = Finite 1, procMemoryPercent = Finite 0,
                 procStatus = ''S'', procUsername = ''root''\<rparr>,
           Some \<lparr>Pid = 2, procName = ''b'', procCPUPercent = NaN, procMemoryPercent = Finite 0,
                 procStatus = ''S'', procUsername = ''root''\<rparr>,
           Some \<lparr>Pid = 3, procName = ''c'', procCPUPercent = Finite 3, procMemoryPercent = Finite 0,
                 procStatus = ''S'', procUsername = ''root''\<rparr>,
           Some \<lparr>Pid = 4, procName = ''d'', procCPUPercent = Finite 2, procMemoryPercent = Finite 0,
                 procStatus = ''S'', procUsername = ''root''\<rparr>]\<rparr>"

subsection \<open>Characters\<close>




section \<open>Properties\<close>

subsection \<open>What \<^verbatim>\<open>Update\<close> leaves alone\<close>

lemma forward_frame:
  "sortBy (fst (forward L msg m)) = sortBy m"
  "ascending (fst (forward L msg m)) = ascending m"
  "stats (fst (forward L msg m)) = stats m"
  "lastUpdate (fst (forward L msg m)) = lastUpdate m"
  "err (fst (forward L msg m)) = err m"
  "table (fst (forward L msg m)) = fst (table_Update L msg (table m))"
  "snd (forward L msg m) = TableCmd (snd (table_Update L msg (table m)))"
  by (simp_all add: forward_def split: prod.splits)

lemma updateTable_frame:
  "sortBy (updateTable L m) = sortBy m"
  "ascending (updateTable L m) = ascending m"
  "lastUpdate (updateTable L m) = lastUpdate m"
  "err (updateTable L m) = err m"
  by (simp_all add: updateTable_def Let_def)

lemma Update_sort_key:
  assumes "(k, x) \<in> {(''c'', ''cpu''), (''m'', ''memory''), (''p'', ''pid''), (''n'', ''name'')}"
  shows "Update L (KeyMsg k) m = forward L (KeyMsg k) (m\<lparr>sortBy := x, ascending := \<not> ascending m\<rparr>)"
  using assms by (auto simp: Update_def)

subsection \<open>The sort keys\<close>

text \<open>
  Claim C3. A press of a sort key (\<open>c\<close>, \<open>m\<close>, \<open>p\<close>, \<open>n\<close>) sets the criterion to the one
  the key stands for and flips the ascending flag, whether or not the criterion changes;
  a second press of the same key leaves the criterion where the first one put it and brings
  the flag back to its value before the first press.
\<close>

theorem toggle_law:
  assumes "(k, x) \<in> {(''c'', ''cpu''), (''m'', ''memory''), (''p'', ''pid''), (''n'', ''name'')}"
  shows "sortBy (fst (Update L (KeyMsg k) m)) = x
       \<and> ascending (fst (Update L (KeyMsg k) m)) = (\<not> ascending m)
       \<and> sortBy (fst (Update L (KeyMsg k) (fst (Update L (KeyMsg k) m)))) = x
       \<and> ascending (fst (Update L (KeyMsg k) (fst (Update L (KeyMsg k) m)))) = ascending m"
  by (simp add: Update_sort_key [OF assms] forward_frame)

theorem toggle_law_witness:
  "(''m'', ''memory'') \<in> {(''c'', ''cpu''), (''m'', ''memory''), (''p'', ''pid''), (''n'', ''name'')}
   \<and> sortBy (fst (Update exampleLib (KeyMsg ''m'') initialModel)) = ''memory''
   \<and> ascending (fst (Update exampleLib (KeyMsg ''m'') initialModel)) = True
   \<and> sortBy (fst (Update exampleLib (KeyMsg ''m'') (fst (Update exampleLib (KeyMsg ''m'') initialModel)))) = ''memory''
   \<and> ascending (fst (Update exampleLib (KeyMsg ''m'') (fst (Update exampleLib (KeyMsg ''m'') initialModel)))) = False"
  using toggle_law [of "''m''" "''memory''" exampleLib initialModel]
  by (simp add: initialModel_def)

subsection \<open>The criterion in the states the program reaches\<close>

lemma Update_sortBy_cases:
  "sortBy (fst (Update L msg m)) = sortBy m \<or> sortBy (fst (Update L msg m)) \<in> {''cpu'', ''memory'', ''pid'', ''name''}"
  by (cases msg) (auto simp: Update_def forward_frame updateTable_frame)

lemma reachable_sortBy: "reachable L m \<Longrightarrow> sortBy m \<in> {''cpu'', ''memory'', ''pid'', ''name''}"
proof (induction rule: reachable.induct)
  case reachable_init
  show ?case by (simp add: initialModel_def)
next
  case (reachable_step m msg)
  then show ?case using Update_sortBy_cases [of L msg m] by auto
qed

lemma Update_other_key:
  assumes "k \<notin> {''c'', ''m'', ''p'', ''n'', ''q'', ''ctrl+c''}"
  shows "sortBy (fst (Update L (KeyMsg k) m)) = sortBy m \<and> ascending (fst (Update L (KeyMsg k) m)) = ascending m"
  using assms by (simp add: Update_def forward_frame)

lemma reachable_example: "reachable exampleLib (fst (Update exampleLib (KeyMsg ''p'') initialModel))"
  by (rule reachable_step [OF reachable_init])

text \<open>
  Claim C10. The criterion starts as \<open>cpu\<close> and is one of \<open>cpu\<close>, \<open>memory\<close>, \<open>pid\<close>,
  \<open>name\<close> in every state the program reaches, so the comparison of \<^verbatim>\<open>updateTable\<close>
  never gets to the \<^verbatim>\<open>return false\<close> after its switch; a key other than the four sort
  keys and the two quit keys changes neither the criterion nor the ascending flag.
\<close>

theorem criterion_invariant:
  assumes "reachable L m"
  shows "sortBy initialModel = ''cpu''
       \<and> sortBy m \<in> {''cpu'', ''memory'', ''pid'', ''name''}
       \<and> (\<forall>k. k \<notin> {''c'', ''m'', ''p'', ''n'', ''q'', ''ctrl+c''} \<longrightarrow>
              sortBy (fst (Update L (KeyMsg k) m)) = sortBy m
            \<and> ascending (fst (Update L (KeyMsg k) m)) = ascending m)"
proof (intro conjI allI impI)
  show "sortBy initialModel = ''cpu''" by (simp add: initialModel_def)
  show "sortBy m \<in> {''cpu'', ''memory'', ''pid'', ''name''}" by (rule reachable_sortBy [OF assms])
next
  fix k :: string assume k: "k \<notin> {''c'', ''m'', ''p'', ''n'', ''q'', ''ctrl+c''}"
  show "sortBy (fst (Update L (KeyMsg k) m)) = sortBy m"
    using Update_other_key [OF k, of L m] by simp
  show "ascending (fst (Update L (KeyMsg k) m)) = ascending m"
    using Update_other_key [OF k, of L m] by simp
qed

theorem criterion_invariant_witness:
  "reachable exampleLib (fst (Update exampleLib (KeyMsg ''p'') initialModel))
   \<and> sortBy (fst (Update exampleLib (KeyMsg ''p'') initialModel)) = ''pid''
   \<and> ''x'' \<notin> {''c'', ''m'', ''p'', ''n'', ''q'', ''ctrl+c''}
   \<and> sortBy (fst (Update exampleLib (KeyMsg ''x'') (fst (Update exampleLib (KeyMsg ''p'') initialModel)))) = ''pid''
   \<and> ascending (fst (Update exampleLib (KeyMsg ''x'') (fst (Update exampleLib (KeyMsg ''p'') initialModel)))) = True"
proof -
  let ?m = "fst (Update exampleLib (KeyMsg ''p'') initialModel)"
  have p: "sortBy ?m = ''pid''" "ascending ?m = True"
    by (simp_all add: Update_def forward_frame initialModel_def)
  from criterion_invariant [OF reachable_example]
  have "sortBy (fst (Update exampleLib (KeyMsg ''x'') ?m)) = sortBy ?m
      \<and> ascending (fst (Update exampleLib (KeyMsg ''x'') ?m)) = ascending ?m"
    by simp
  with p reachable_example show ?thesis by simp
qed

subsection \<open>Insertion sort meets the contract of \<^verbatim>\<open>sort.Slice\<close>\<close>

lemma mset_insertLeft: "mset (insertLeft lt x ys) = add_mset x (mset ys)"
  by (induction ys) simp_all

lemma set_insertLeft: "set (insertLeft lt x ys) = insert x (set ys)"
  by (induction ys) auto

lemma mset_foldl_insertLeft:
  "mset (foldl (\<lambda>acc x. insertLeft lt x acc) acc xs) = mset acc + mset xs"
  by (induction xs arbitrary: acc) (simp_all add: mset_insertLeft)

lemma swo_on_asym:
  "strict_weak_order_on A lt \<Longrightarrow> a \<in> A \<Longrightarrow> b \<in> A \<Longrightarrow> lt a b \<Longrightarrow> \<not> lt b a"
  unfolding strict_weak_order_on_def by blast

lemma swo_on_negtrans:
  "strict_weak_order_on A lt \<Longrightarrow> a \<in> A \<Longrightarrow> b \<in> A \<Longrightarrow> c \<in> A \<Longrightarrow>
   \<not> lt a b \<Longrightarrow> \<not> lt b c \<Longrightarrow> \<not> lt a c"
  unfolding strict_weak_order_on_def by blast

lemma sorted_insertLeft:
  assumes swo: "strict_weak_order_on A lt" and x: "x \<in> A"
  shows "set ys \<subseteq> A \<Longrightarrow> sorted_wrt (\<lambda>a b. \<not> lt a b) ys \<Longrightarrow>
         sorted_wrt (\<lambda>a b. \<not> lt a b) (insertLeft lt x ys)"
proof (induction ys)
  case Nil
  show ?case by simp
next
  case (Cons y ys)
  from Cons.prems have y: "y \<in> A" and ys: "set ys \<subseteq> A" by simp_all
  show ?case
  proof (cases "lt x y")
    case True
    have "\<not> lt y x" by (rule swo_on_asym [OF swo x y True])
    with True Cons ys show ?thesis by (auto simp: set_insertLeft)
  next
    case False
    have "\<not> lt x z" if z: "z \<in> set ys" for z
    proof -
      from Cons.prems(2) z have "\<not> lt y z" by simp
      from swo_on_negtrans [OF swo x y _ False this] z ys show ?thesis by blast
    qed
    with False Cons.prems(2) show ?thesis by simp
  qed
qed

lemma sorted_foldl_insertLeft:
  assumes swo: "strict_weak_order_on A lt"
  shows "set xs \<subseteq> A \<Longrightarrow> set acc \<subseteq> A \<Longrightarrow> sorted_wrt (\<lambda>a b. \<not> lt a b) acc \<Longrightarrow>
         sorted_wrt (\<lambda>a b. \<not> lt a b) (foldl (\<lambda>acc x. insertLeft lt x acc) acc xs)"
proof (induction xs arbitrary: acc)
  case Nil
  then show ?case by simp
next
  case (Cons x xs)
  from Cons.prems have x: "x \<in> A" and xs: "set xs \<subseteq> A" by simp_all
  have "set (insertLeft lt x acc) \<subseteq> A"
    using x Cons.prems(2) by (simp add: set_insertLeft)
  moreover have "sorted_wrt (\<lambda>a b. \<not> lt a b) (insertLeft lt x acc)"
    by (rule sorted_insertLeft [OF swo x Cons.prems(2) Cons.prems(3)])
  ultimately show ?case using Cons.IH [OF xs] by simp
qed

lemma insertionSort_contract_on: "sort_Slice_contract_on insertionSort"
proof -
  have "sorted_wrt (\<lambda>a b. \<not> lt b a) (insertionSort lt xs)"
    if "strict_weak_order_on (set xs) lt" for lt :: "'a \<Rightarrow> 'a \<Rightarrow> bool" and xs
    using sorted_foldl_insertLeft [OF that, of xs "[]"]
    by (simp add: insertionSort_def sorted_wrt_rev)
  then show ?thesis
    by (simp add: sort_Slice_contract_on_def insertionSort_def mset_foldl_insertLeft)
qed

lemma swo_imp_swo_on: "strict_weak_order lt \<Longrightarrow> strict_weak_order_on A lt"
  unfolding strict_weak_order_def strict_weak_order_on_def by blast

lemma contract_on_imp_contract: "sort_Slice_contract_on srt \<Longrightarrow> sort_Slice_contract srt"
  unfolding sort_Slice_contract_on_def sort_Slice_contract_def
  using swo_imp_swo_on by blast

lemma exampleLib_contract_on: "sort_Slice_contract_on (sort_Slice exampleLib)"
  by (simp add: exampleLib_def insertionSort_contract_on)

lemma exampleLib_contract: "sort_Slice_contract (sort_Slice exampleLib)"
  by (rule contract_on_imp_contract [OF exampleLib_contract_on])

lemma exampleLib_keeps_rows: "keeps_rows (table_Update exampleLib)"
  by (simp add: exampleLib_def keeps_rows_def)

subsection \<open>The comparison of \<^verbatim>\<open>updateTable\<close>\<close>

lemma flt_irrefl: "\<not> flt a a"
  by (cases a) simp_all

lemma flt_trans: "flt a b \<Longrightarrow> flt b c \<Longrightarrow> flt a c"
  by (cases a; cases b; cases c) simp_all

lemma flt_negtrans: "b \<noteq> NaN \<Longrightarrow> \<not> flt a b \<Longrightarrow> \<not> flt b c \<Longrightarrow> \<not> flt a c"
  by (cases a; cases b; cases c) simp_all

lemma swo_on_flt:
  assumes "\<forall>a\<in>A. f a \<noteq> NaN"
  shows "strict_weak_order_on A (\<lambda>a b. flt (f a) (f b))"
    and "strict_weak_order_on A (\<lambda>a b. flt (f b) (f a))"
  unfolding strict_weak_order_on_def
  using assms flt_irrefl flt_trans flt_negtrans by blast+

lemma swo_on_less:
  fixes f :: "'a \<Rightarrow> 'b::linorder"
  shows "strict_weak_order_on A (\<lambda>a b. f a < f b)"
    and "strict_weak_order_on A (\<lambda>a b. f b < f a)"
  unfolding strict_weak_order_on_def by auto

lemma sortLess_cases:
  "sortLess ''cpu'' True = (\<lambda>a b. flt (CPUPerc a) (CPUPerc b))"
  "sortLess ''cpu'' False = (\<lambda>a b. flt (CPUPerc b) (CPUPerc a))"
  "sortLess ''memory'' True = (\<lambda>a b. flt (MemPerc a) (MemPerc b))"
  "sortLess ''memory'' False = (\<lambda>a b. flt (MemPerc b) (MemPerc a))"
  "sortLess ''pid'' True = (\<lambda>a b. sint (PID a) < sint (PID b))"
  "sortLess ''pid'' False = (\<lambda>a b. sint (PID b) < sint (PID a))"
  "sortLess ''name'' True = (\<lambda>a b. Name a < Name b)"
  "sortLess ''name'' False = (\<lambda>a b. Name b < Name a)"
  by (intro ext, simp add: sortLess_def word_sless_alt)+

lemma sortLess_swo_on:
  assumes "sb \<in> {''cpu'', ''memory'', ''pid'', ''name''}" and "noNaN sb xs"
  shows "strict_weak_order_on (set xs) (sortLess sb asc)"
proof -
  consider "sb = ''cpu''" | "sb = ''memory''" | "sb = ''pid''" | "sb = ''name''"
    using assms(1) by auto
  then show ?thesis
  proof cases
    case 1
    with assms(2) have "\<forall>a\<in>set xs. CPUPerc a \<noteq> NaN"
      by (simp add: noNaN_def list_all_iff)
    from swo_on_flt [OF this] 1 show ?thesis
      by (cases asc) (simp_all add: sortLess_cases)
  next
    case 2
    with assms(2) have "\<forall>a\<in>set xs. MemPerc a \<noteq> NaN"
      by (simp add: noNaN_def list_all_iff)
    from swo_on_flt [OF this] 2 show ?thesis
      by (cases asc) (simp_all add: sortLess_cases)
  next
    case 3
    with swo_on_less [of "set xs" "\<lambda>a. sint (PID a)"] show ?thesis
      by (cases asc) (simp_all add: sortLess_cases)
  next
    case 4
    with swo_on_less [of "set xs" Name] show ?thesis
      by (cases asc) (simp_all add: sortLess_cases)
  qed
qed

lemma sortLess_inOrder:
  assumes "sb \<in> {''cpu'', ''memory'', ''pid'', ''name''}" and "noNaN sb xs"
    and "a \<in> set xs" and "b \<in> set xs"
  shows "inOrder sb asc a b \<longleftrightarrow> \<not> sortLess sb asc b a"
proof -
  consider "sb = ''cpu''" | "sb = ''memory''" | "sb = ''pid''" | "sb = ''name''"
    using assms(1) by auto
  then show ?thesis
  proof cases
    case 1
    with assms have "CPUPerc a \<noteq> NaN" "CPUPerc b \<noteq> NaN"
      by (simp_all add: noNaN_def list_all_iff)
    with 1 show ?thesis by (simp add: inOrder_def sortLess_def fle_def)
  next
    case 2
    with assms have "MemPerc a \<noteq> NaN" "MemPerc b \<noteq> NaN"
      by (simp_all add: noNaN_def list_all_iff)
    with 2 show ?thesis by (simp add: inOrder_def sortLess_def fle_def)
  next
    case 3
    then show ?thesis by (auto simp: inOrder_def sortLess_def word_sless_alt)
  next
    case 4
    then show ?thesis by (auto simp: inOrder_def sortLess_def)
  qed
qed

lemma contract_mset: "sort_Slice_contract srt \<Longrightarrow> mset (srt lt xs) = mset xs"
  unfolding sort_Slice_contract_def by blast

lemma contract_length: "sort_Slice_contract srt \<Longrightarrow> length (srt lt xs) = length xs"
  using contract_mset [of srt lt xs] mset_eq_length by blast

lemma contract_on_mset: "sort_Slice_contract_on srt \<Longrightarrow> mset (srt lt xs) = mset xs"
  unfolding sort_Slice_contract_on_def by blast

lemma contract_on_sorted:
  "sort_Slice_contract_on srt \<Longrightarrow> strict_weak_order_on (set xs) lt \<Longrightarrow>
   sorted_wrt (\<lambda>a b. \<not> lt b a) (srt lt xs)"
  unfolding sort_Slice_contract_on_def by blast

subsection \<open>The loops in closed form\<close>

lemma rowsLoop_eq:
  "length rs \<le> 50 \<Longrightarrow> rowsLoop L ps rs = rs @ map (mkRow L) (take (50 - length rs) ps)"
proof (induction ps arbitrary: rs)
  case Nil
  show ?case by simp
next
  case (Cons p ps)
  show ?case
  proof (cases "length rs \<ge> 50")
    case True
    with Cons.prems show ?thesis by simp
  next
    case False
    then have "length (rs @ [mkRow L p]) \<le> 50" by simp
    from Cons.IH [OF this] False show ?thesis
      by (simp add: take_Cons' Suc_diff_Suc)
  qed
qed

lemma updateTable_processInfo:
  "processInfo (stats (updateTable L m)) =
     sort_Slice L (sortLess (sortBy m) (ascending m)) (processInfo (stats m))"
  by (simp add: updateTable_def Let_def)

lemma updateTable_rows:
  "rows (table (updateTable L m)) = map (mkRow L) (take 50 (processInfo (stats (updateTable L m))))"
  by (simp add: updateTable_def Let_def SetRows_def rowsLoop_eq)

lemma getProcessInfo_loop_length:
  "length (getProcessInfo_loop ps acc) = length acc + length (filter named ps)"
  by (induction ps acc rule: getProcessInfo_loop.induct) (simp_all add: named_def Let_def)


lemma getProcessInfo_loop_Name:
  "map Name (getProcessInfo_loop ps acc) = map Name acc @ map (\<lambda>p. procName (the p)) (filter named ps)"
  by (induction ps acc rule: getProcessInfo_loop.induct) (simp_all add: named_def Let_def)

lemma updateStats_processInfo:
  "processInfo (updateStats pr) = getProcessInfo (processes (updateStats pr))"
  by (simp add: updateStats_def zeroStats_def getProcessInfo_def Let_def split: option.splits)

lemma getProcessInfo_length: "length (getProcessInfo ps) = length (filter named ps)"
  by (simp add: getProcessInfo_def getProcessInfo_loop_length)

subsection \<open>The rows\<close>

text \<open>
  Claim C1. For a snapshot whose \<open>processInfo\<close> is the ingestion of its \<open>processes\<close> (every
  snapshot \<^verbatim>\<open>updateStats\<close> builds is one, by \<open>updateStats_processInfo\<close>), the table gets
  as many rows as the snapshot has processes with a name, and 50 at most, under any
  criterion and direction.
\<close>

theorem row_count:
  assumes "sort_Slice_contract (sort_Slice L)"
    and "processInfo S = getProcessInfo (processes S)"
  shows "length (rows (table (updateTable L (m\<lparr>stats := S\<rparr>))))
       = min 50 (length (filter named (processes S)))"
proof -
  have "length (processInfo (stats (updateTable L (m\<lparr>stats := S\<rparr>)))) = length (processInfo S)"
    by (simp add: updateTable_processInfo contract_length [OF assms(1)])
  then show ?thesis
    by (simp add: updateTable_rows assms(2) getProcessInfo_length min.commute)
qed

lemma sixty_named: "filter named sixtyProcs = sixtyProcs"
  by (simp add: sixtyProcs_def named_def)

lemma sixty_length: "length sixtyProcs = 60"
  by (simp add: sixtyProcs_def)

theorem row_count_witness:
  "sort_Slice_contract (sort_Slice exampleLib)
   \<and> processInfo (zeroStats\<lparr>processes := sixtyProcs, processInfo := getProcessInfo sixtyProcs\<rparr>)
       = getProcessInfo (processes (zeroStats\<lparr>processes := sixtyProcs, processInfo := getProcessInfo sixtyProcs\<rparr>))
   \<and> length (filter named sixtyProcs) = 60
   \<and> length (rows (table (updateTable exampleLib
        (initialModel\<lparr>stats := zeroStats\<lparr>processes := sixtyProcs, processInfo := getProcessInfo sixtyProcs\<rparr>\<rparr>)))) = 50"
proof -
  let ?S = "zeroStats\<lparr>processes := sixtyProcs, processInfo := getProcessInfo sixtyProcs\<rparr>"
  have h: "processInfo ?S = getProcessInfo (processes ?S)" by simp
  from row_count [OF exampleLib_contract h, of initialModel] h exampleLib_contract
  show ?thesis by (simp add: sixty_named sixty_length)
qed

text \<open>
  Claim C2, as far as it holds. Under each of the four criteria and in both directions, when
  no percentage that the criterion compares is a NaN, two rows that follow one another are
  the rows of two processes in the order of the criterion: by \<open>CPUPerc\<close>, by \<open>MemPerc\<close>, by
  the signed value of \<open>PID\<close>, by \<open>Name\<close> bytewise, not increasing when \<open>ascending\<close> is
  false and not decreasing when it is true. The processes the rows are made from are the
  snapshot's, permuted.
\<close>

theorem sort_correct:
  assumes "sort_Slice_contract_on (sort_Slice L)"
    and "sortBy m \<in> {''cpu'', ''memory'', ''pid'', ''name''}"
    and "noNaN (sortBy m) (processInfo (stats m))"
    and "Suc i < length (rows (table (updateTable L m)))"
  shows "rows (table (updateTable L m)) ! i = mkRow L (processInfo (stats (updateTable L m)) ! i)
       \<and> rows (table (updateTable L m)) ! Suc i = mkRow L (processInfo (stats (updateTable L m)) ! Suc i)
       \<and> inOrder (sortBy m) (ascending m)
           (processInfo (stats (updateTable L m)) ! i)
           (processInfo (stats (updateTable L m)) ! Suc i)
       \<and> mset (processInfo (stats (updateTable L m))) = mset (processInfo (stats m))"
proof -
  let ?xs = "processInfo (stats m)"
  let ?qs = "processInfo (stats (updateTable L m))"
  let ?lt = "sortLess (sortBy m) (ascending m)"
  have len: "Suc i < length ?qs" "Suc i < 50"
    using assms(4) by (simp_all add: updateTable_rows)
  have perm: "mset ?qs = mset ?xs"
    by (simp add: updateTable_processInfo contract_on_mset [OF assms(1)])
  then have sets: "set ?qs = set ?xs" by (rule mset_eq_setD)
  have mem: "?qs ! i \<in> set ?xs" "?qs ! Suc i \<in> set ?xs"
    using len(1) sets nth_mem [of i ?qs] nth_mem [of "Suc i" ?qs] by simp_all
  have "sorted_wrt (\<lambda>a b. \<not> ?lt b a) ?qs"
    unfolding updateTable_processInfo
    by (rule contract_on_sorted [OF assms(1) sortLess_swo_on [OF assms(2) assms(3)]])
  from sorted_wrt_nth_less [OF this, of i "Suc i"] len(1)
  have "\<not> ?lt (?qs ! Suc i) (?qs ! i)" by simp
  then have ord: "inOrder (sortBy m) (ascending m) (?qs ! i) (?qs ! Suc i)"
    by (simp add: sortLess_inOrder [OF assms(2) assms(3) mem])
  from len ord perm show ?thesis
    by (simp add: updateTable_rows)
qed

lemma example_rows:
  "rows (table (updateTable exampleLib (initialModel\<lparr>stats := exampleStats\<rparr>))) =
     [[''2'', ''daemon'', ''90.0'', ''1.0'', ''R'', ''b''],
      [''4'', ''administ'', ''40.0'', ''2.0'', ''S'', ''a-command-name-of-thirty-byt..''],
      [''1'', ''root'', ''10.0'', ''3.0'', ''S'', ''a'']]"
  by code_simp

lemma example_noNaN: "noNaN ''cpu'' (processInfo exampleStats)"
  by code_simp

theorem sort_correct_witness:
  "sort_Slice_contract_on (sort_Slice exampleLib)
   \<and> sortBy (initialModel\<lparr>stats := exampleStats\<rparr>) \<in> {''cpu'', ''memory'', ''pid'', ''name''}
   \<and> noNaN (sortBy (initialModel\<lparr>stats := exampleStats\<rparr>))
        (processInfo (stats (initialModel\<lparr>stats := exampleStats\<rparr>)))
   \<and> Suc 0 < length (rows (table (updateTable exampleLib (initialModel\<lparr>stats := exampleStats\<rparr>))))
   \<and> inOrder ''cpu'' False
        (processInfo (stats (updateTable exampleLib (initialModel\<lparr>stats := exampleStats\<rparr>))) ! 0)
        (processInfo (stats (updateTable exampleLib (initialModel\<lparr>stats := exampleStats\<rparr>))) ! Suc 0)
   \<and> rows (table (updateTable exampleLib (initialModel\<lparr>stats := exampleStats\<rparr>))) ! 0
       = [''2'', ''daemon'', ''90.0'', ''1.0'', ''R'', ''b'']"
proof -
  let ?m = "initialModel\<lparr>stats := exampleStats\<rparr>"
  have d: "sortBy ?m = ''cpu''" "ascending ?m = False" by (simp_all add: initialModel_def)
  have h2: "sortBy ?m \<in> {''cpu'', ''memory'', ''pid'', ''name''}" by (simp add: d)
  have h3: "noNaN (sortBy ?m) (processInfo (stats ?m))" by (simp add: d example_noNaN)
  have h4: "Suc 0 < length (rows (table (updateTable exampleLib ?m)))" by (simp add: example_rows)
  from sort_correct [OF exampleLib_contract_on h2 h3 h4] exampleLib_contract_on h2 h3 h4
  show ?thesis by (simp add: d example_rows)
qed

text \<open>
  Claim C2 as stated, for every snapshot, fails on a NaN. Take the CPU percentages 1, NaN,
  3, 2 under the initial directive (cpu, descending). The insertion sort asks of each
  element whether it is greater than its left neighbour: NaN is not greater than 1, 3 is
  not greater than NaN, 2 is not greater than 3, so nothing moves. The four rows come out
  in the order 1, NaN, 3, 2, and \<^verbatim>\<open>>=\<close> holds neither between the first and the second
  nor between the second and the third.
\<close>

theorem sort_nan_counterexample:
  "sortBy (initialModel\<lparr>stats := nanStats\<rparr>) = ''cpu''
   \<and> \<not> ascending (initialModel\<lparr>stats := nanStats\<rparr>)
   \<and> length (rows (table (updateTable exampleLib (initialModel\<lparr>stats := nanStats\<rparr>)))) = 4
   \<and> map CPUPerc (processInfo (stats (updateTable exampleLib (initialModel\<lparr>stats := nanStats\<rparr>))))
       = [Finite 1, NaN, Finite 3, Finite 2]
   \<and> \<not> inOrder ''cpu'' False
         (processInfo (stats (updateTable exampleLib (initialModel\<lparr>stats := nanStats\<rparr>))) ! 0)
         (processInfo (stats (updateTable exampleLib (initialModel\<lparr>stats := nanStats\<rparr>))) ! 1)
   \<and> \<not> inOrder ''cpu'' False
         (processInfo (stats (updateTable exampleLib (initialModel\<lparr>stats := nanStats\<rparr>))) ! 1)
         (processInfo (stats (updateTable exampleLib (initialModel\<lparr>stats := nanStats\<rparr>))) ! 2)"
  by code_simp






subsection \<open>Ingestion\<close>





subsection \<open>Resizing\<close>

text \<open>
  Claim C7. A \<^verbatim>\<open>tea.WindowSizeMsg\<close> changes neither the snapshot, nor the criterion, nor
  the direction, nor the rows of the table: the table gets the width less 4 and the height
  less 12, and then the message itself.
\<close>

theorem resize_frame:
  assumes "keeps_rows (table_Update L)"
  shows "stats (fst (Update L (WindowSizeMsg w h) m)) = stats m
       \<and> sortBy (fst (Update L (WindowSizeMsg w h) m)) = sortBy m
       \<and> ascending (fst (Update L (WindowSizeMsg w h) m)) = ascending m
       \<and> rows (table (fst (Update L (WindowSizeMsg w h) m))) = rows (table m)
       \<and> table (fst (Update L (WindowSizeMsg w h) m)) =
           fst (table_Update L (WindowSizeMsg w h) ((table m)\<lparr>width := w - 4, height := h - 12\<rparr>))"
  using assms
  by (simp add: Update_def forward_frame keeps_rows_def SetWidth_def SetHeight_def)

theorem resize_frame_witness:
  "keeps_rows (table_Update exampleLib)
   \<and> stats (fst (Update exampleLib (WindowSizeMsg 80 24) (updateTable exampleLib (initialModel\<lparr>stats := exampleStats\<rparr>))))
       = stats (updateTable exampleLib (initialModel\<lparr>stats := exampleStats\<rparr>))
   \<and> sortBy (fst (Update exampleLib (WindowSizeMsg 80 24) (updateTable exampleLib (initialModel\<lparr>stats := exampleStats\<rparr>)))) = ''cpu''
   \<and> ascending (fst (Update exampleLib (WindowSizeMsg 80 24) (updateTable exampleLib (initialModel\<lparr>stats := exampleStats\<rparr>)))) = False
   \<and> rows (table (fst (Update exampleLib (WindowSizeMsg 80 24) (updateTable exampleLib (initialModel\<lparr>stats := exampleStats\<rparr>))))) =
       [[''2'', ''daemon'', ''90.0'', ''1.0'', ''R'', ''b''],
        [''4'', ''administ'', ''40.0'', ''2.0'', ''S'', ''a-command-name-of-thirty-byt..''],
        [''1'', ''root'', ''10.0'', ''3.0'', ''S'', ''a'']]
   \<and> width (table (fst (Update exampleLib (WindowSizeMsg 80 24) (updateTable exampleLib (initialModel\<lparr>stats := exampleStats\<rparr>))))) = 76
   \<and> height (table (fst (Update exampleLib (WindowSizeMsg 80 24) (updateTable exampleLib (initialModel\<lparr>stats := exampleStats\<rparr>))))) = 12"
proof -
  let ?m = "updateTable exampleLib (initialModel\<lparr>stats := exampleStats\<rparr>)"
  have d: "sortBy ?m = ''cpu''" "ascending ?m = False"
    by (simp_all add: updateTable_frame initialModel_def)
  have t: "table_Update exampleLib = (\<lambda>msg t. (t, ()))" by (simp add: exampleLib_def)
  from resize_frame [OF exampleLib_keeps_rows, of 80 24 ?m] exampleLib_keeps_rows
  show ?thesis by (simp add: d t example_rows)
qed

subsection \<open>What \<^verbatim>\<open>updateTable\<close> reads\<close>

text \<open>
  \<^verbatim>\<open>updateTable\<close> reads \<^verbatim>\<open>m.stats.processInfo\<close>, \<^verbatim>\<open>m.sortBy\<close> and \<^verbatim>\<open>m.ascending\<close>
  and nothing else of the model: neither the table it overwrites nor the time of the last
  update. Whether two runs of \<^verbatim>\<open>sort.Slice\<close> on the same slice agree is not a matter of
  this function.
\<close>

lemma updateTable_reads:
  assumes "stats m1 = stats m2" and "sortBy m1 = sortBy m2" and "ascending m1 = ascending m2"
  shows "rows (table (updateTable L m1)) = rows (table (updateTable L m2))
       \<and> stats (updateTable L m1) = stats (updateTable L m2)"
  using assms by (simp add: updateTable_def Let_def SetRows_def)

subsection \<open>The CPU line of \<^verbatim>\<open>View\<close>\<close>

lemma joinWith_Cons: "ys \<noteq> [] \<Longrightarrow> joinWith sep (x # ys) = x @ sep @ joinWith sep ys"
  by (cases ys) simp_all

lemma cpuLoop_eq:
  assumes "us \<noteq> []" and "i \<le> 7" and "n = i + length us"
  shows "cpuLoop L n i us b =
     b @ (if i > 0 then '' '' else []) @
     joinWith '' '' (map (\<lambda>u. Sprintf1 L u @ ''%'') (take (8 - i) us)) @
     (if n > 8 then '' (+'' @ Itoa (int n - 8) @ '' more)'' else [])"
  using assms
proof (induction us arbitrary: i b)
  case Nil
  then show ?case by simp
next
  case (Cons u us)
  show ?case
  proof (cases "i = 7")
    case True
    with Cons.prems show ?thesis by (auto simp: Let_def)
  next
    case False
    with Cons.prems have i: "i < 7" by simp
    show ?thesis
    proof (cases us)
      case Nil
      with i Cons.prems show ?thesis by (simp add: Let_def take_Cons')
    next
      case (Cons v vs)
      have a: "us \<noteq> []" using Cons by simp
      have b1: "Suc i \<le> 7" using i by simp
      have c: "n = Suc i + length us" using Cons.prems by simp
      have t: "take (8 - i) (u # us) = u # take (8 - Suc i) us"
        using i by (simp add: take_Cons')
      have ne: "map (\<lambda>u. Sprintf1 L u @ ''%'') (take (7 - i) us) \<noteq> []"
        using Cons i by (simp add: take_Cons')
      show ?thesis
        using i Cons.IH [OF a b1 c] ne
        by (simp add: Let_def t joinWith_Cons)
    qed
  qed
qed

text \<open>
  Claim C9. For an empty list of per-core percentages \<^verbatim>\<open>View\<close> writes no CPU line.
  Otherwise the line is the styled label, the first 8 percentages at most, each with one
  decimal place and a percent sign, a blank between two of them, then \<open>(+N more)\<close> when
  there are more than 8 cores, \<open>N\<close> being their number less 8, and a line feed.
\<close>

theorem cpu_line:
  "View_cpu L m b =
     (if cpuPercent (stats m) = [] then b
      else b @ Render L ''CPU: '' @
           joinWith '' '' (map (\<lambda>u. Sprintf1 L u @ ''%'') (take 8 (cpuPercent (stats m)))) @
           (if length (cpuPercent (stats m)) > 8
            then '' (+'' @ Itoa (int (length (cpuPercent (stats m))) - 8) @ '' more)''
            else []) @
           [CHR 0x0A])"
proof (cases "cpuPercent (stats m) = []")
  case True
  then show ?thesis by (simp add: View_cpu_def)
next
  case False
  from cpuLoop_eq [OF False, of 0 "length (cpuPercent (stats m))" L "b @ Render L ''CPU: ''"] False
  show ?thesis by (simp add: View_cpu_def Let_def)
qed

lemma example_cpu: "cpuPercent exampleStats = map Finite [1, 2, 3, 4, 5, 6, 7, 8, 9, 10]"
  by (simp add: exampleStats_def updateStats_def zeroStats_def Let_def)

lemma example_fmt:
  "oneDecimal (Finite 1) = ''1.0''" "oneDecimal (Finite 2) = ''2.0''" "oneDecimal (Finite 3) = ''3.0''"
  "oneDecimal (Finite 4) = ''4.0''" "oneDecimal (Finite 5) = ''5.0''" "oneDecimal (Finite 6) = ''6.0''"
  "oneDecimal (Finite 7) = ''7.0''" "oneDecimal (Finite 8) = ''8.0''"
  by code_simp+

lemma example_count: "Itoa 2 = ''2''"
  by code_simp

theorem cpu_line_witness:
  "View_cpu exampleLib (initialModel\<lparr>stats := exampleStats\<rparr>) [] =
     ''CPU: 1.0% 2.0% 3.0% 4.0% 5.0% 6.0% 7.0% 8.0% (+2 more)'' @ [CHR 0x0A]
   \<and> View_cpu exampleLib initialModel ''header'' = ''header''"
proof -
  have r: "Render exampleLib = (\<lambda>s. s)" "Sprintf1 exampleLib = oneDecimal"
    by (simp_all add: exampleLib_def)
  have z: "cpuPercent (stats initialModel) = []" by (simp add: initialModel_def zeroStats_def)
  from cpu_line [of exampleLib "initialModel\<lparr>stats := exampleStats\<rparr>" "[]"]
       cpu_line [of exampleLib initialModel "''header''"]
  show ?thesis by (simp add: example_cpu example_fmt example_count r z)
qed

subsection \<open>A sort key and the rows on display\<close>

text \<open>
  The key cases of \<^verbatim>\<open>Update\<close> set the directive and go on to the table component;
  \<^verbatim>\<open>updateTable\<close> is called in the \<^verbatim>\<open>systemStats\<close> case only. So a key press leaves
  the rows as they are, for every table component that keeps its rows.
\<close>

lemma key_press_rows:
  assumes "keeps_rows (table_Update L)"
  shows "rows (table (fst (Update L (KeyMsg k) m))) = rows (table m)
       \<and> stats (fst (Update L (KeyMsg k) m)) = stats m"
  using assms by (simp add: Update_def forward_frame keeps_rows_def)

text \<open>
  Claim C4 asks that a sort key re-derives the rows from the stored snapshot under the new
  directive, with no new sampling request. The code issues no sampling request, but it does
  not re-derive the rows either. After the example snapshot has arrived under the initial
  directive (cpu, descending), the rows are those of pids 2, 4, 1. A press of \<open>c\<close> makes the
  directive (cpu, ascending), which is what \<^verbatim>\<open>View\<close> prints as \<^verbatim>\<open>Sorted by\<close>, and the
  rows are still those of pids 2, 4, 1; \<^verbatim>\<open>updateTable\<close> on that state would give 1, 4, 2.
\<close>

theorem sort_key_stale_rows:
  "sortBy (fst (Update exampleLib (KeyMsg ''c'') (fst (Update exampleLib (StatsMsg exampleStats) initialModel)))) = ''cpu''
   \<and> ascending (fst (Update exampleLib (KeyMsg ''c'') (fst (Update exampleLib (StatsMsg exampleStats) initialModel))))
   \<and> snd (Update exampleLib (KeyMsg ''c'') (fst (Update exampleLib (StatsMsg exampleStats) initialModel))) = TableCmd ()
   \<and> rows (table (fst (Update exampleLib (KeyMsg ''c'') (fst (Update exampleLib (StatsMsg exampleStats) initialModel))))) =
       [[''2'', ''daemon'', ''90.0'', ''1.0'', ''R'', ''b''],
        [''4'', ''administ'', ''40.0'', ''2.0'', ''S'', ''a-command-name-of-thirty-byt..''],
        [''1'', ''root'', ''10.0'', ''3.0'', ''S'', ''a'']]
   \<and> rows (table (updateTable exampleLib
        (fst (Update exampleLib (KeyMsg ''c'') (fst (Update exampleLib (StatsMsg exampleStats) initialModel)))))) =
       [[''1'', ''root'', ''10.0'', ''3.0'', ''S'', ''a''],
        [''4'', ''administ'', ''40.0'', ''2.0'', ''S'', ''a-command-name-of-thirty-byt..''],
        [''2'', ''daemon'', ''90.0'', ''1.0'', ''R'', ''b'']]"
  by code_simp

end
